theory Spec2Isabelle
  imports Complex_Main "HOL-Library.Sublist" "HOL-Library.AList"
begin

section \<open>Accents of KaTeX: \<^verbatim>\<open>src/functions/accent.js\<close>\<close>

text \<open>
  The file defines the parse-node handlers of the accent commands, the builder of their HTML
  boxes (which also handles a \<^verbatim>\<open>supsub\<close> node whose base is an accent) and the builder of
  their MathML nodes. What the file calls in \<^verbatim>\<open>buildHTML\<close>, \<^verbatim>\<open>buildCommon\<close>,
  \<^verbatim>\<open>stretchy\<close>, \<^verbatim>\<open>utils\<close>, \<^verbatim>\<open>buildMathML\<close> and \<^verbatim>\<open>Options\<close> is code of other modules:
  the builders take these functions as a record of parameters, and every theorem about a
  builder holds for all of them. The node classes (\<^verbatim>\<open>ParseNode\<close>, \<^verbatim>\<open>domTree\<close>,
  \<^verbatim>\<open>mathMLTree\<close>) are datatypes with the fields this file uses.

  JavaScript numbers are modelled as \<^typ>\<open>real\<close>: \<^verbatim>\<open>Math.min\<close>, \<^verbatim>\<open>Math.max\<close>, negation,
  subtraction, halving and doubling are the exact operations, so the rounding of IEEE
  doubles and NaN are outside the model.
\<close>

subsection \<open>Strings\<close>

text \<open>
  A control sequence name such as \<^verbatim>\<open>\hat\<close> is the backslash character followed by the
  letters; \<open>cmd ''hat''\<close> is that string (the JavaScript literal \<^verbatim>\<open>"\\hat"\<close>).
\<close>

definition cmd :: "string \<Rightarrow> string" where
  "cmd s = CHR 0x5C # s"

subsection \<open>Parse nodes\<close>

text \<open>
  \<^verbatim>\<open>new ParseNode(type, value, mode)\<close>. A node of type \<^verbatim>\<open>"accent"\<close> has the value
  \<^verbatim>\<open>{label, isStretchy, isShifty, base}\<close>; a node of type \<^verbatim>\<open>"supsub"\<close> has a value with
  the optional fields \<^verbatim>\<open>base\<close>, \<^verbatim>\<open>sup\<close> and \<^verbatim>\<open>sub\<close>. \<open>Other\<close> stands for a node of
  any other type: its type tag, its text, its argument nodes and its mode.
\<close>

datatype node =
    Accent accent_node
  | SupSub supsub_node
  | Other (ntype: string) (ntext: string) (nargs: "node list") (nmode: string)
and accent_node =
    AccentNode (label: string) (isStretchy: bool) (isShifty: bool) (base: node) (mode: string)
and supsub_node =
    SupSubNode (sbase: "node option") (sup: "node option") (sub: "node option") (smode: string)

subsection \<open>Handlers (lines 201--264)\<close>

text \<open>
  \<^verbatim>\<open>context.funcName\<close> and \<^verbatim>\<open>context.parser.mode\<close> are the two fields of the context the
  handlers read. Both function definitions declare \<^verbatim>\<open>numArgs: 1\<close>, so \<^verbatim>\<open>args[0]\<close> is the
  one argument, passed here as \<open>arg\<close>.
\<close>

record handler_context =
  funcName :: string
  parser_mode :: string

text \<open>
  \<^verbatim>\<open>NON_STRETCHY_ACCENT_REGEX\<close> is the alternation of the eleven names, each with its
  backslash escaped, so every alternative matches its name literally.
  \<^verbatim>\<open>RegExp.prototype.test\<close> searches: it succeeds when some alternative occurs anywhere
  in the string.
\<close>

definition NON_STRETCHY_ACCENTS :: "string list" where
  "NON_STRETCHY_ACCENTS =
    [cmd ''acute'', cmd ''grave'', cmd ''ddot'', cmd ''tilde'', cmd ''bar'', cmd ''breve'',
     cmd ''check'', cmd ''hat'', cmd ''vec'', cmd ''dot'', cmd ''mathring'']"

definition NON_STRETCHY_ACCENT_REGEX_test :: "string \<Rightarrow> bool" where
  "NON_STRETCHY_ACCENT_REGEX_test s = list_ex (\<lambda>accent. sublist accent s) NON_STRETCHY_ACCENTS"

text \<open>The \<^verbatim>\<open>names\<close> of the first \<^verbatim>\<open>defineFunction\<close> call (math-mode accents).\<close>

definition accent_names :: "string list" where
  "accent_names =
    [cmd ''acute'', cmd ''grave'', cmd ''ddot'', cmd ''tilde'', cmd ''bar'', cmd ''breve'',
     cmd ''check'', cmd ''hat'', cmd ''vec'', cmd ''dot'', cmd ''mathring'',
     cmd ''widehat'', cmd ''widetilde'', cmd ''overrightarrow'', cmd ''overleftarrow'',
     cmd ''Overrightarrow'', cmd ''overleftrightarrow'', cmd ''overgroup'',
     cmd ''overlinesegment'', cmd ''overleftharpoon'', cmd ''overrightharpoon'']"

definition handler :: "handler_context \<Rightarrow> node \<Rightarrow> node" where
  "handler context arg =
    (let isStretchy = \<not> NON_STRETCHY_ACCENT_REGEX_test (funcName context);
         isShifty = (\<not> isStretchy \<or>
                     funcName context = cmd ''widehat'' \<or>
                     funcName context = cmd ''widetilde'')
     in Accent (AccentNode (funcName context) isStretchy isShifty arg (parser_mode context)))"

text \<open>The \<^verbatim>\<open>names\<close> of the second \<^verbatim>\<open>defineFunction\<close> call (text-mode accents).\<close>

definition text_accent_names :: "string list" where
  "text_accent_names =
    [cmd [CHR 0x27], cmd [CHR 0x60], cmd ''^'', cmd ''~'', cmd ''='', cmd ''u'', cmd ''.'',
     cmd [CHR 0x22], cmd ''r'', cmd ''H'', cmd ''v'', cmd ''textcircled'']"

definition text_handler :: "handler_context \<Rightarrow> node \<Rightarrow> node" where
  "text_handler context arg =
     Accent (AccentNode (funcName context) False True arg (parser_mode context))"

subsection \<open>Node type checks\<close>

text \<open>
  \<^verbatim>\<open>checkNodeType\<close> and \<^verbatim>\<open>assertNodeType\<close> are imported from \<^verbatim>\<open>ParseNode.js\<close>, which is
  not part of this file. The builder uses the first at the type \<^verbatim>\<open>"supsub"\<close> and the
  second at the type \<^verbatim>\<open>"accent"\<close>. The error raised carries the expected type.
\<close>

datatype error = NodeTypeError string

text \<open>
  Modelled from the spec: \<^verbatim>\<open>checkNodeType(node, "supsub")\<close> of \<^verbatim>\<open>ParseNode.js\<close>, missing
  here. Section 4.4 classifies the input as a bare accent or a wrapper: the check returns
  the node when it is a \<^verbatim>\<open>supsub\<close> node and nothing otherwise.
\<close>

definition checkNodeType_supsub :: "node \<Rightarrow> supsub_node option" where
  "checkNodeType_supsub n = (case n of SupSub s \<Rightarrow> Some s | _ \<Rightarrow> None)"

text \<open>
  Modelled from the spec: \<^verbatim>\<open>assertNodeType(node, "accent")\<close> of \<^verbatim>\<open>ParseNode.js\<close>, missing
  here. Section 7 (a): a node that is not what the caller believed (a missing node, or a
  node of another type) must fail fast and is not recovered; the assertion returns the
  node when it is an accent node and raises otherwise.
\<close>

definition assertNodeType_accent :: "node option \<Rightarrow> error + accent_node" where
  "assertNodeType_accent n =
     (case n of Some (Accent g) \<Rightarrow> Inr g | _ \<Rightarrow> Inl (NodeTypeError ''accent''))"

subsection \<open>Boxes of the HTML tree\<close>

text \<open>
  A CSS length the builder writes is a number with a unit appended
  (\<^verbatim>\<open>left + "em"\<close>), a \<^verbatim>\<open>calc\<close> expression around a number, or a literal. The number
  is kept as it is rather than printed: \<open>Em x\<close> is the string of \<open>x\<close> followed by
  \<^verbatim>\<open>em\<close>, \<open>CalcFullMinusEm x\<close> is \<^verbatim>\<open>calc(100% - \<close>\<open>x\<close>\<^verbatim>\<open>em)\<close>, and \<open>Lit s\<close> is the
  string \<open>s\<close>. A style object is the list of its properties in insertion order; assigning a
  property is \<^const>\<open>AList.update\<close>.
\<close>

datatype css = Em real | CalcFullMinusEm real | Lit string

type_synonym style = "(string \<times> css) list"

text \<open>
  One type for the nodes of the HTML tree (\<^verbatim>\<open>span\<close> and \<^verbatim>\<open>symbolNode\<close> of
  \<^verbatim>\<open>domTree\<close>), with the fields the builder reads or writes and the other dimensions.
\<close>

datatype box =
  Box (classes: "string list") (children: "box list") (height: real) (depth: real)
      (maxFontSize: real) (width: real) (italic: real) (skew: real) (style: style)

definition set_classes :: "string list \<Rightarrow> box \<Rightarrow> box" where
  "set_classes v b = (case b of Box c ch h d m w i s st \<Rightarrow> Box v ch h d m w i s st)"

definition set_children :: "box list \<Rightarrow> box \<Rightarrow> box" where
  "set_children v b = (case b of Box c ch h d m w i s st \<Rightarrow> Box c v h d m w i s st)"

definition set_height :: "real \<Rightarrow> box \<Rightarrow> box" where
  "set_height v b = (case b of Box c ch h d m w i s st \<Rightarrow> Box c ch v d m w i s st)"

definition set_italic :: "real \<Rightarrow> box \<Rightarrow> box" where
  "set_italic v b = (case b of Box c ch h d m w i s st \<Rightarrow> Box c ch h d m w v s st)"

definition set_style :: "style \<Rightarrow> box \<Rightarrow> box" where
  "set_style v b = (case b of Box c ch h d m w i s st \<Rightarrow> Box c ch h d m w i s v)"

text \<open>
  \<^verbatim>\<open>xs[0] = v\<close> on a JavaScript array: slot 0 is overwritten, and created when the array
  is empty.
\<close>

definition assign0 :: "'a \<Rightarrow> 'a list \<Rightarrow> 'a list" where
  "assign0 v xs = (case xs of [] \<Rightarrow> [v] | _ # ys \<Rightarrow> v # ys)"

text \<open>The argument of \<^verbatim>\<open>buildCommon.makeVList\<close>: a position type and the stacked children.\<close>

datatype vlist_child =
    VElem (elem: box) (wrapperClasses: "string list option") (wrapperStyle: "style option")
  | VKern (kern_size: real)

record vlist_params =
  positionType :: string
  vlist_children :: "vlist_child list"

subsection \<open>Nodes of the MathML tree\<close>

text \<open>
  \<^verbatim>\<open>new mathMLTree.MathNode(type, children)\<close> has no attribute yet; \<^verbatim>\<open>setAttribute\<close> assigns
  one.
\<close>

datatype mathnode =
    MathNode (mtype: string) (mchildren: "mathnode list") (attributes: "(string \<times> string) list")
  | TextNode string


subsection \<open>Collaborators\<close>

text \<open>
  The functions and constants of other modules that the builders call, as parameters.
  \<open>'o\<close> is the type of \<^verbatim>\<open>Options\<close>. In the order of the source:
  \<^verbatim>\<open>html.buildGroup\<close>, \<^verbatim>\<open>options.havingCrampedStyle()\<close>, \<^verbatim>\<open>utils.isCharacterBox\<close>,
  \<^verbatim>\<open>utils.getBaseElem\<close>, \<^verbatim>\<open>options.fontMetrics().xHeight\<close>, \<^verbatim>\<open>buildCommon.staticSvg\<close>,
  \<^verbatim>\<open>buildCommon.svgData.vec[1]\<close>, \<^verbatim>\<open>buildCommon.makeSymbol\<close>, \<^verbatim>\<open>buildCommon.makeSpan\<close>
  (its third argument is optional), \<^verbatim>\<open>buildCommon.makeVList\<close>, \<^verbatim>\<open>stretchy.svgSpan\<close>,
  \<^verbatim>\<open>stretchy.mathMLnode\<close>, \<^verbatim>\<open>mml.makeText\<close> and \<^verbatim>\<open>mml.buildGroup\<close>.
  They are taken as functions of the node handed to them: what they compute and whether
  they fail is their own contract. \<^verbatim>\<open>html.buildGroup\<close> can write to the nodes it is given
  (for a \<^verbatim>\<open>supsub\<close> node it comes back to the builder of this file, lines 14--15 and
  24--30); what a collaborator writes is not part of the model, which records the writes
  of the builder's own code only.
\<close>

record 'o collab =
  html_buildGroup :: "node \<Rightarrow> 'o \<Rightarrow> box"
  havingCrampedStyle :: "'o \<Rightarrow> 'o"
  isCharacterBox :: "node \<Rightarrow> bool"
  getBaseElem :: "node \<Rightarrow> node"
  fontMetrics_xHeight :: "'o \<Rightarrow> real"
  staticSvg :: "string \<Rightarrow> 'o \<Rightarrow> box"
  svgData_vec_width :: real
  makeSymbol :: "string \<Rightarrow> string \<Rightarrow> string \<Rightarrow> 'o \<Rightarrow> box"
  makeSpan :: "string list \<Rightarrow> box list \<Rightarrow> 'o option \<Rightarrow> box"
  makeVList :: "vlist_params \<Rightarrow> 'o \<Rightarrow> box"
  svgSpan :: "accent_node \<Rightarrow> 'o \<Rightarrow> box"
  mathMLnode :: "string \<Rightarrow> mathnode"
  mml_makeText :: "string \<Rightarrow> string \<Rightarrow> mathnode"
  mml_buildGroup :: "node \<Rightarrow> 'o \<Rightarrow> mathnode"

subsection \<open>The HTML builder (lines 16--180)\<close>

text \<open>
  The accent node \<^verbatim>\<open>group\<close> is written \<open>group'\<close>. The local \<^verbatim>\<open>base\<close> is
  \<^verbatim>\<open>group.value.base\<close> on both branches of the unwrapping, and nothing assigns that field
  afterwards, so the model writes \<open>base group'\<close> for it.

  Lines 50--71: \<^verbatim>\<open>mustShift\<close> and the local \<^verbatim>\<open>skew\<close>.
\<close>

definition mustShift :: "'o collab \<Rightarrow> accent_node \<Rightarrow> bool" where
  "mustShift E group' = (isShifty group' \<and> isCharacterBox E (base group'))"

definition accent_skew :: "'o collab \<Rightarrow> accent_node \<Rightarrow> 'o \<Rightarrow> real" where
  "accent_skew E group' options =
    (if mustShift E group' then
       let baseChar = getBaseElem E (base group');
           baseGroup = html_buildGroup E baseChar (havingCrampedStyle E options)
       in skew baseGroup
     else 0)"

text \<open>
  Line 105: \<^verbatim>\<open>accentFull\<close>. Lines 73--76 and 106--109: the local \<^verbatim>\<open>clearance\<close>, which
  starts as the minimum and is overwritten inside the non-stretchy branch for a full
  accent; \<open>accent_clearance\<close> is its value when the layers are stacked.
\<close>

definition accentFull :: "accent_node \<Rightarrow> bool" where
  "accentFull group' = (label group' = cmd ''textcircled'')"

definition accent_clearance :: "'o collab \<Rightarrow> accent_node \<Rightarrow> box \<Rightarrow> 'o \<Rightarrow> real" where
  "accent_clearance E group' body options =
    (let clearance = min (height body) (fontMetrics_xHeight E options)
     in if \<not> isStretchy group' \<and> accentFull group' then height body else clearance)"

text \<open>Lines 81--98: the accent glyph and its width.\<close>

definition accent_glyph :: "'o collab \<Rightarrow> accent_node \<Rightarrow> 'o \<Rightarrow> box \<times> real" where
  "accent_glyph E group' options =
    (if label group' = cmd ''vec'' then
       (staticSvg E ''vec'' options, svgData_vec_width E)
     else
       let accent = makeSymbol E (label group') ''Main-Regular'' (mode group') options;
           accent = set_italic 0 accent
       in (accent, width accent))"

text \<open>Lines 111--120: the local \<^verbatim>\<open>left\<close>, from the skew \<open>s\<close> and the width \<open>w\<close>.\<close>

definition accent_left :: "accent_node \<Rightarrow> real \<Rightarrow> real \<Rightarrow> real" where
  "accent_left group' s w =
    (let left = s
     in if \<not> accentFull group' then left - w / 2 else left)"

text \<open>Lines 100--128: the span \<^verbatim>\<open>accentBody\<close> of a non-stretchy accent, before stacking.\<close>

definition accent_body_span :: "'o collab \<Rightarrow> accent_node \<Rightarrow> real \<Rightarrow> 'o \<Rightarrow> box" where
  "accent_body_span E group' s options =
    (let (accent, w) = accent_glyph E group' options;
         accentBody = makeSpan E [''accent-body''] [accent] None;
         accentBody = (if accentFull group'
                       then set_classes (classes accentBody @ [''accent-full'']) accentBody
                       else accentBody);
         accentBody = set_style
                        (AList.update ''left'' (Em (accent_left group' s w)) (style accentBody))
                        accentBody;
         accentBody = (if label group' = cmd ''textcircled''
                       then set_style
                              (AList.update ''top'' (Lit ''.2em'') (style accentBody)) accentBody
                       else accentBody)
     in accentBody)"

text \<open>Lines 130--158: the argument handed to \<^verbatim>\<open>makeVList\<close> on either branch.\<close>

definition accent_vlist ::
  "'o collab \<Rightarrow> accent_node \<Rightarrow> box \<Rightarrow> real \<Rightarrow> 'o \<Rightarrow> vlist_params" where
  "accent_vlist E group' body s options =
    (if \<not> isStretchy group' then
       \<lparr>positionType = ''firstBaseline'',
        vlist_children =
          [VElem body None None,
           VKern (- accent_clearance E group' body options),
           VElem (accent_body_span E group' s options) None None]\<rparr>
     else
       \<lparr>positionType = ''firstBaseline'',
        vlist_children =
          [VElem body None None,
           VElem (svgSpan E group' options) (Some [''svg-align''])
             (if s > 0
              then Some [(''width'', CalcFullMinusEm (2 * s)), (''marginLeft'', Em (2 * s))]
              else None)]\<rparr>)"

text \<open>Lines 47--162: from the body to \<^verbatim>\<open>accentWrap\<close>.\<close>

definition accentWrap :: "'o collab \<Rightarrow> accent_node \<Rightarrow> 'o \<Rightarrow> box" where
  "accentWrap E group' options =
    (let body = html_buildGroup E (base group') (havingCrampedStyle E options);
         s = accent_skew E group' options;
         accentBody = makeVList E (accent_vlist E group' body s options) options
     in makeSpan E [''mord'', ''accent''] [accentBody] (Some options))"

text \<open>
  The one assignment to a parse node in the file is \<^verbatim>\<open>supSub.value.base = base\<close>
  (line 37). \<open>BaseAssigned w b\<close> records it: the wrapper \<open>w\<close> as it was, and the node
  \<open>b\<close> stored in its \<^verbatim>\<open>base\<close> field; \<open>after_write\<close> is the wrapper once the
  assignment is done.
\<close>

datatype node_write = BaseAssigned supsub_node node

fun after_write :: "node_write \<Rightarrow> supsub_node" where
  "after_write (BaseAssigned w b) = SupSubNode (Some b) (sup w) (sub w) (smode w)"

text \<open>
  The builder. It returns, next to the box, the writes its own code has made to the parse
  tree, in order: none for a bare accent, the assignment of line 37 for a wrapper. That
  assignment is made before the wrapper is laid out (line 41), so the layout is given the
  rewritten wrapper. An error is raised before anything is written. \<^verbatim>\<open>supSubGroup\<close> is
  assigned on the wrapper branch and nowhere else, so the final test
  \<^verbatim>\<open>if (supSubGroup)\<close> is that branch again: the patch of lines 164--176 is written where
  the branch ends.
\<close>

definition htmlBuilder :: "'o collab \<Rightarrow> node \<Rightarrow> 'o \<Rightarrow> error + (box \<times> node_write list)" where
  "htmlBuilder E grp options =
    (case checkNodeType_supsub grp of
       Some supSub \<Rightarrow>
         (case assertNodeType_accent (sbase supSub) of
            Inl e \<Rightarrow> Inl e
          | Inr group' \<Rightarrow>
              let line37 = BaseAssigned supSub (base group');
                  supSub = SupSubNode (Some (base group')) (sup supSub) (sub supSub) (smode supSub);
                  supSubGroup = html_buildGroup E (SupSub supSub) options;
                  accentWrap = accentWrap E group' options;
                  supSubGroup = set_children (assign0 accentWrap (children supSubGroup)) supSubGroup;
                  supSubGroup = set_height (max (height accentWrap) (height supSubGroup)) supSubGroup;
                  supSubGroup = set_classes (assign0 ''mord'' (classes supSubGroup)) supSubGroup
              in Inr (supSubGroup, [line37]))
     | None \<Rightarrow>
         (case assertNodeType_accent (Some grp) of
            Inl e \<Rightarrow> Inl e
          | Inr group' \<Rightarrow> Inr (accentWrap E group' options, [])))"

subsection \<open>The MathML builder (lines 182--199)\<close>


subsection \<open>Nodes the handlers construct\<close>


subsection \<open>A concrete set of collaborators\<close>

text \<open>
  Modelled from the spec: the collaborators of section 6 (\<^verbatim>\<open>buildHTML\<close>, \<^verbatim>\<open>buildCommon\<close>,
  \<^verbatim>\<open>stretchy\<close>, \<^verbatim>\<open>utils\<close>, \<^verbatim>\<open>buildMathML\<close> and \<^verbatim>\<open>Options\<close> are not part of this file).
  The general theorems hold for every collaborator; this instance runs the builders on
  the scenarios of section 8. A glyph is a node of type \<^verbatim>\<open>mathord\<close>, \<^verbatim>\<open>textord\<close> or
  \<^verbatim>\<open>bin\<close>; the glyph \<^verbatim>\<open>f\<close> has the skew 0.1em of scenario B and every glyph the height
  0.7em of scenario C; the x-height is 0.431em. Character peeling follows section 9: a
  styling-only wrapper (type \<^verbatim>\<open>color\<close>, one argument) is entered, anything else stops.
  The text of a MathML symbol depends on the mode: in math mode \<^verbatim>\<open>\hat\<close> is printed as
  the circumflex, in text mode it has no replacement.
\<close>

record sample_options =
  cramped :: bool

definition sample_glyph :: "string \<Rightarrow> string \<Rightarrow> box" where
  "sample_glyph t txt =
     Box [if t = ''bin'' then ''mbin'' else ''mord''] [] (7/10) 0 1 (1/2) 0
         (if txt = ''f'' then 1/10 else 0) []"

definition sample_buildGroup :: "node \<Rightarrow> sample_options \<Rightarrow> box" where
  "sample_buildGroup n options =
    (case n of
       Other t txt args m \<Rightarrow> sample_glyph t txt
     | SupSub s \<Rightarrow>
         (case sbase s of
            Some (Other t txt args m) \<Rightarrow>
              Box [if t = ''bin'' then ''mbin'' else ''mord'']
                  [sample_glyph t txt, Box [''msupsub''] [] (9/10) 0 1 (1/3) 0 0 []]
                  (9/10) 0 1 (5/6) 0 0 []
          | _ \<Rightarrow> Box [''mord''] [] 0 0 1 0 0 0 [])
     | Accent g \<Rightarrow> Box [''mord'', ''accent''] [] (1) 0 1 (1/2) 0 0 [])"

text \<open>
  Modelled from the spec: \<^verbatim>\<open>utils.getBaseElem\<close> and \<^verbatim>\<open>utils.isCharacterBox\<close>, missing
  here, after sections 4.1 and 9: peeling enters a styling-only wrapper and stops at
  anything else; a character box is a base whose peeled element is a single glyph.
\<close>

fun sample_getBaseElem :: "node \<Rightarrow> node" where
  "sample_getBaseElem (Other t txt [n] m) =
     (if t = ''color'' then sample_getBaseElem n else Other t txt [n] m)"
| "sample_getBaseElem n = n"

definition sample_isCharacterBox :: "node \<Rightarrow> bool" where
  "sample_isCharacterBox n =
    (case sample_getBaseElem n of
       Other t txt args m \<Rightarrow> t = ''mathord'' \<or> t = ''textord'' \<or> t = ''bin''
     | _ \<Rightarrow> False)"

definition sample_makeVList :: "vlist_params \<Rightarrow> sample_options \<Rightarrow> box" where
  "sample_makeVList params options =
     Box [''vlist-t'']
         (concat (map (\<lambda>c. case c of VElem b wc ws \<Rightarrow> [b] | VKern k \<Rightarrow> []) (vlist_children params)))
         (sum_list (map (\<lambda>c. case c of VElem b wc ws \<Rightarrow> height b + depth b | VKern k \<Rightarrow> k)
                        (vlist_children params)))
         0 1 0 0 0 []"

definition sample_makeSpan :: "string list \<Rightarrow> box list \<Rightarrow> sample_options option \<Rightarrow> box" where
  "sample_makeSpan cs bs options =
     Box cs bs (foldr (\<lambda>b m. max (height b) m) bs 0) (foldr (\<lambda>b m. max (depth b) m) bs 0)
         1 0 0 0 []"

definition sample_collab :: "sample_options collab" where
  "sample_collab =
    \<lparr>html_buildGroup = sample_buildGroup,
     havingCrampedStyle = (\<lambda>options. options\<lparr>cramped := True\<rparr>),
     isCharacterBox = sample_isCharacterBox,
     getBaseElem = sample_getBaseElem,
     fontMetrics_xHeight = (\<lambda>options. 431/1000),
     staticSvg = (\<lambda>name options. Box [''overlay''] [] (714/1000) 0 1 (471/1000) 0 0 []),
     svgData_vec_width = 471/1000,
     makeSymbol = (\<lambda>v font m options. Box [] [] (7/10) 0 1 (1/2) (1/20) 0 []),
     makeSpan = sample_makeSpan,
     makeVList = sample_makeVList,
     svgSpan = (\<lambda>g options. Box [''stretchy''] [] (3/10) 0 1 0 0 0 []),
     mathMLnode = (\<lambda>l. MathNode ''mo'' [TextNode l] [(''stretchy'', ''true'')]),
     mml_makeText = (\<lambda>t m. TextNode (if m = ''math'' \<and> t = cmd ''hat'' then ''^'' else t)),
     mml_buildGroup = (\<lambda>n options. case n of
                          Other t txt args m \<Rightarrow> MathNode ''mi'' [TextNode txt] []
                        | _ \<Rightarrow> MathNode ''mrow'' [] [])\<rparr>"

text \<open>Nodes of the scenarios: the glyphs \<^verbatim>\<open>f\<close> and \<^verbatim>\<open>+\<close>, and a superscript \<^verbatim>\<open>2\<close>.\<close>

definition glyph_f :: node where
  "glyph_f = Other ''mathord'' ''f'' [] ''math''"

definition glyph_plus :: node where
  "glyph_plus = Other ''bin'' ''+'' [] ''math''"

definition glyph_2 :: node where
  "glyph_2 = Other ''textord'' ''2'' [] ''math''"

text \<open>
  The accent \<^verbatim>\<open>\hat{+}\<close> and the wrapper \<^verbatim>\<open>\hat{+}^2\<close>, the accents \<^verbatim>\<open>\hat{f}\<close>,
  \<^verbatim>\<open>\widehat{f}\<close> and \<^verbatim>\<open>\textcircled{f}\<close>, and the options the examples start from.
\<close>

definition hat_f :: accent_node where
  "hat_f = AccentNode (cmd ''hat'') False True glyph_f ''math''"

definition hat_plus :: accent_node where
  "hat_plus = AccentNode (cmd ''hat'') False True glyph_plus ''math''"

definition hat_plus_sup :: supsub_node where
  "hat_plus_sup = SupSubNode (Some (Accent hat_plus)) (Some glyph_2) None ''math''"

definition widehat_f :: accent_node where
  "widehat_f = AccentNode (cmd ''widehat'') True True glyph_f ''math''"

definition textcircled_f :: accent_node where
  "textcircled_f = AccentNode (cmd ''textcircled'') False True glyph_f ''text''"

definition sample_opts :: sample_options where
  "sample_opts = \<lparr>cramped = False\<rparr>"

section \<open>Properties\<close>

subsection \<open>Auxiliary facts\<close>

lemma cmd_eq_iff: "cmd a = cmd b \<longleftrightarrow> a = b"
  by (simp add: cmd_def)

lemma regex_test_on_names:
  "\<forall>f \<in> set accent_names. NON_STRETCHY_ACCENT_REGEX_test f = (f \<in> set NON_STRETCHY_ACCENTS)"
  by (simp add: NON_STRETCHY_ACCENT_REGEX_test_def NON_STRETCHY_ACCENTS_def accent_names_def
      cmd_def sublist_code(3))

lemma set_classes_fields:
  "classes (set_classes v b) = v" "children (set_classes v b) = children b"
  "height (set_classes v b) = height b" "depth (set_classes v b) = depth b"
  "maxFontSize (set_classes v b) = maxFontSize b" "width (set_classes v b) = width b"
  "italic (set_classes v b) = italic b" "skew (set_classes v b) = skew b"
  "style (set_classes v b) = style b"
  by (cases b; simp add: set_classes_def)+

lemma set_children_fields:
  "classes (set_children v b) = classes b" "children (set_children v b) = v"
  "height (set_children v b) = height b" "depth (set_children v b) = depth b"
  "maxFontSize (set_children v b) = maxFontSize b" "width (set_children v b) = width b"
  "italic (set_children v b) = italic b" "skew (set_children v b) = skew b"
  "style (set_children v b) = style b"
  by (cases b; simp add: set_children_def)+

lemma set_height_fields:
  "classes (set_height v b) = classes b" "children (set_height v b) = children b"
  "height (set_height v b) = v" "depth (set_height v b) = depth b"
  "maxFontSize (set_height v b) = maxFontSize b" "width (set_height v b) = width b"
  "italic (set_height v b) = italic b" "skew (set_height v b) = skew b"
  "style (set_height v b) = style b"
  by (cases b; simp add: set_height_def)+

lemma set_italic_fields:
  "classes (set_italic v b) = classes b" "children (set_italic v b) = children b"
  "height (set_italic v b) = height b" "depth (set_italic v b) = depth b"
  "maxFontSize (set_italic v b) = maxFontSize b" "width (set_italic v b) = width b"
  "italic (set_italic v b) = v" "skew (set_italic v b) = skew b"
  "style (set_italic v b) = style b"
  by (cases b; simp add: set_italic_def)+

lemma set_style_fields:
  "classes (set_style v b) = classes b" "children (set_style v b) = children b"
  "height (set_style v b) = height b" "depth (set_style v b) = depth b"
  "maxFontSize (set_style v b) = maxFontSize b" "width (set_style v b) = width b"
  "italic (set_style v b) = italic b" "skew (set_style v b) = skew b"
  "style (set_style v b) = v"
  by (cases b; simp add: set_style_def)+

lemmas setter_fields =
  set_classes_fields set_children_fields set_height_fields set_italic_fields set_style_fields

lemma assign0_Cons: "assign0 v xs = v # tl xs"
  by (cases xs) (simp_all add: assign0_def)

lemma sample_fields:
  "html_buildGroup sample_collab = sample_buildGroup"
  "havingCrampedStyle sample_collab = (\<lambda>options. options\<lparr>cramped := True\<rparr>)"
  "isCharacterBox sample_collab = sample_isCharacterBox"
  "getBaseElem sample_collab = sample_getBaseElem"
  "fontMetrics_xHeight sample_collab = (\<lambda>options. 431/1000)"
  "svgData_vec_width sample_collab = 471/1000"
  "makeSpan sample_collab = sample_makeSpan"
  "makeVList sample_collab = sample_makeVList"
  by (simp_all add: sample_collab_def)

text \<open>The two shapes of a successful run: a bare accent, and a wrapper around an accent.\<close>

lemma htmlBuilder_accent:
  "htmlBuilder E (Accent g) opts = Inr (accentWrap E g opts, [])"
  by (simp add: htmlBuilder_def checkNodeType_supsub_def assertNodeType_accent_def)

lemma accentWrap_unfold:
  "accentWrap E g opts =
     makeSpan E [''mord'', ''accent'']
       [makeVList E
          (accent_vlist E g (html_buildGroup E (base g) (havingCrampedStyle E opts))
             (accent_skew E g opts) opts)
          opts]
       (Some opts)"
  by (simp add: accentWrap_def)

lemma htmlBuilder_supsub:
  assumes "sbase ss = Some (Accent g)"
  shows "htmlBuilder E (SupSub ss) opts =
    Inr (set_classes
           (assign0 ''mord''
              (classes (html_buildGroup E
                 (SupSub (SupSubNode (Some (base g)) (sup ss) (sub ss) (smode ss))) opts)))
           (set_height
              (max (height (accentWrap E g opts))
                 (height (html_buildGroup E
                    (SupSub (SupSubNode (Some (base g)) (sup ss) (sub ss) (smode ss))) opts)))
              (set_children
                 (assign0 (accentWrap E g opts)
                    (children (html_buildGroup E
                       (SupSub (SupSubNode (Some (base g)) (sup ss) (sub ss) (smode ss))) opts)))
                 (html_buildGroup E
                    (SupSub (SupSubNode (Some (base g)) (sup ss) (sub ss) (smode ss))) opts))),
         [BaseAssigned ss (base g)])"
  using assms
  by (simp add: htmlBuilder_def checkNodeType_supsub_def assertNodeType_accent_def Let_def
      setter_fields)

text \<open>A node cannot be its own accent's base: the base is a proper part of the accent.\<close>

lemma base_neq_Accent: "base g \<noteq> Accent g"
proof
  assume "base g = Accent g"
  then have "size (base g) = size (Accent g)" by simp
  then show False by (cases g) simp
qed



lemma sample_skews:
  "accent_skew sample_collab hat_plus sample_opts = 0"
  "accent_skew sample_collab widehat_f sample_opts = 1/10"
  "accent_skew sample_collab textcircled_f sample_opts = 1/10"
  "accent_skew sample_collab hat_f sample_opts = 1/10"
  by (simp_all add: accent_skew_def mustShift_def sample_fields sample_isCharacterBox_def
      sample_buildGroup_def sample_glyph_def glyph_f_def glyph_plus_def
      hat_plus_def widehat_f_def textcircled_f_def hat_f_def)

subsection \<open>The classification of the handlers\<close>

text \<open>
  C1 (as amended). For every name the math-mode handler is registered for, the node it
  builds has \<open>isStretchy\<close> true exactly when the name is not one of the eleven non-stretchy
  names, and \<open>isShifty\<close> true exactly for the non-stretchy names and for the two stretchy
  names \<^verbatim>\<open>\widehat\<close> and \<^verbatim>\<open>\widetilde\<close>; the text-mode handler builds every node with
  \<open>isStretchy\<close> false and \<open>isShifty\<close> true. Both flags are a function of the name alone:
  neither the base nor the mode enters them.
\<close>

theorem handler_shifty_table:
  "(\<forall>f \<in> set accent_names.
      handler \<lparr>funcName = f, parser_mode = m\<rparr> b =
        Accent (AccentNode f
                  (f \<notin> set NON_STRETCHY_ACCENTS)
                  (f \<in> set NON_STRETCHY_ACCENTS \<or> f = cmd ''widehat'' \<or> f = cmd ''widetilde'')
                  b m)) \<and>
   (\<forall>f \<in> set text_accent_names.
      text_handler \<lparr>funcName = f, parser_mode = m\<rparr> b = Accent (AccentNode f False True b m))"
  using regex_test_on_names by (auto simp add: handler_def text_handler_def Let_def)

text \<open>
  The table at \<^verbatim>\<open>\widehat\<close> (stretchy and shifty), \<^verbatim>\<open>\hat\<close> (not stretchy, shifty) and
  \<^verbatim>\<open>\overgroup\<close> (stretchy, not shifty), and the text-mode handler at \<^verbatim>\<open>\textcircled\<close>.
\<close>

theorem handler_shifty_table_witness:
  "cmd ''widehat'' \<in> set accent_names \<and>
   handler \<lparr>funcName = cmd ''widehat'', parser_mode = ''math''\<rparr> glyph_f =
     Accent (AccentNode (cmd ''widehat'') True True glyph_f ''math'') \<and>
   cmd ''hat'' \<in> set accent_names \<and>
   handler \<lparr>funcName = cmd ''hat'', parser_mode = ''math''\<rparr> glyph_f =
     Accent (AccentNode (cmd ''hat'') False True glyph_f ''math'') \<and>
   cmd ''overgroup'' \<in> set accent_names \<and>
   handler \<lparr>funcName = cmd ''overgroup'', parser_mode = ''math''\<rparr> glyph_f =
     Accent (AccentNode (cmd ''overgroup'') True False glyph_f ''math'') \<and>
   cmd ''textcircled'' \<in> set text_accent_names \<and>
   text_handler \<lparr>funcName = cmd ''textcircled'', parser_mode = ''text''\<rparr> glyph_f =
     Accent (AccentNode (cmd ''textcircled'') False True glyph_f ''text'')"
proof -
  have w: "cmd ''widehat'' \<in> set accent_names" and h: "cmd ''hat'' \<in> set accent_names"
    and g: "cmd ''overgroup'' \<in> set accent_names"
    by (simp_all add: accent_names_def cmd_def)
  have c: "cmd ''textcircled'' \<in> set text_accent_names"
    by (simp add: text_accent_names_def)
  note math_tab = handler_shifty_table [of "''math''" glyph_f, THEN conjunct1, rule_format]
  note text_tab = handler_shifty_table [of "''text''" glyph_f, THEN conjunct2, rule_format]
  from math_tab [OF w] math_tab [OF h] math_tab [OF g] text_tab [OF c] w h g c show ?thesis
    by (simp add: NON_STRETCHY_ACCENTS_def cmd_def)
qed

text \<open>
  The claim as first stated fails twice. \<^verbatim>\<open>\hat\<close> is not stretchy and is neither of the
  two named labels, yet it is shifty; \<^verbatim>\<open>\overrightarrow\<close> is stretchy, yet it is not
  shifty.
\<close>

theorem shifty_table_counterexample:
  "handler \<lparr>funcName = cmd ''hat'', parser_mode = ''math''\<rparr> glyph_f =
     Accent (AccentNode (cmd ''hat'') False True glyph_f ''math'') \<and>
   cmd ''hat'' \<noteq> cmd ''widehat'' \<and> cmd ''hat'' \<noteq> cmd ''widetilde'' \<and>
   handler \<lparr>funcName = cmd ''overrightarrow'', parser_mode = ''math''\<rparr> glyph_f =
     Accent (AccentNode (cmd ''overrightarrow'') True False glyph_f ''math'')"
  by (simp add: handler_def NON_STRETCHY_ACCENT_REGEX_test_def NON_STRETCHY_ACCENTS_def
      cmd_def sublist_code(3))

subsection \<open>Skew\<close>

text \<open>
  C2. The skew the builder lays an accent out with is 0 when the accent is not shifty; it
  is the skew of the box built, in cramped style, for the innermost element of the base
  when the accent is shifty and the base is a character box; and it is 0 when the base is
  not a character box, shifty or not. The last conjunct says that this number is the one
  the builder hands to the stacking of the layers.
\<close>

theorem skew_rule:
  "(\<not> isShifty g \<longrightarrow> accent_skew E g opts = 0) \<and>
   (isShifty g \<and> isCharacterBox E (base g) \<longrightarrow>
      accent_skew E g opts =
        skew (html_buildGroup E (getBaseElem E (base g)) (havingCrampedStyle E opts))) \<and>
   (\<not> isCharacterBox E (base g) \<longrightarrow> accent_skew E g opts = 0) \<and>
   htmlBuilder E (Accent g) opts =
     Inr (makeSpan E [''mord'', ''accent'']
            [makeVList E
               (accent_vlist E g (html_buildGroup E (base g) (havingCrampedStyle E opts))
                  (accent_skew E g opts) opts)
               opts]
            (Some opts),
          [])"
  by (simp add: accent_skew_def mustShift_def htmlBuilder_accent accentWrap_unfold)

text \<open>
  A stretchy accent that is not shifty over \<^verbatim>\<open>f\<close>; \<^verbatim>\<open>\hat\<close> over \<^verbatim>\<open>f\<close>, and over
  \<^verbatim>\<open>f\<close> inside a colour wrapper; \<^verbatim>\<open>\hat\<close> over the two glyphs \<^verbatim>\<open>f2\<close>.
\<close>

theorem skew_rule_witness:
  "accent_skew sample_collab (AccentNode (cmd ''overgroup'') True False glyph_f ''math'')
     sample_opts = 0 \<and>
   accent_skew sample_collab (AccentNode (cmd ''hat'') False True glyph_f ''math'')
     sample_opts = 1/10 \<and>
   accent_skew sample_collab
     (AccentNode (cmd ''hat'') False True (Other ''color'' ''red'' [glyph_f] ''math'') ''math'')
     sample_opts = 1/10 \<and>
   accent_skew sample_collab
     (AccentNode (cmd ''hat'') False True (Other ''ordgroup'' [] [glyph_f, glyph_2] ''math'') ''math'')
     sample_opts = 0"
  using skew_rule [of "AccentNode (cmd ''overgroup'') True False glyph_f ''math''"
                      sample_collab sample_opts]
        skew_rule [of "AccentNode (cmd ''hat'') False True glyph_f ''math''"
                      sample_collab sample_opts]
        skew_rule [of "AccentNode (cmd ''hat'') False True
                         (Other ''color'' ''red'' [glyph_f] ''math'') ''math''"
                      sample_collab sample_opts]
        skew_rule [of "AccentNode (cmd ''hat'') False True
                         (Other ''ordgroup'' [] [glyph_f, glyph_2] ''math'') ''math''"
                      sample_collab sample_opts]
  by (simp add: sample_fields sample_isCharacterBox_def sample_buildGroup_def sample_glyph_def
      glyph_f_def glyph_2_def)

subsection \<open>Clearance\<close>

text \<open>
  C3 (as amended). For every non-stretchy accent, the layers the builder stacks are the
  base box, a kern of minus the clearance, and the accent body; the clearance is the
  minimum of the height of the base box and the x-height, hence at most the x-height,
  unless the label is \<^verbatim>\<open>\textcircled\<close>, and then it is the height of the base box. For
  a stretchy accent no clearance is applied: the layers stacked are the base box and the
  stretchy span, with no kern between them.
\<close>

theorem clearance_rule:
  assumes "body = html_buildGroup E (base g) (havingCrampedStyle E opts)"
  shows "(\<not> isStretchy g \<longrightarrow>
            htmlBuilder E (Accent g) opts =
              Inr (makeSpan E [''mord'', ''accent'']
                     [makeVList E
                        \<lparr>positionType = ''firstBaseline'',
                         vlist_children =
                           [VElem body None None,
                            VKern (- accent_clearance E g body opts),
                            VElem (accent_body_span E g (accent_skew E g opts) opts)
                              None None]\<rparr>
                        opts]
                     (Some opts),
                   []) \<and>
            accent_clearance E g body opts =
              (if label g = cmd ''textcircled'' then height body
               else min (height body) (fontMetrics_xHeight E opts)) \<and>
            (label g \<noteq> cmd ''textcircled'' \<longrightarrow>
               accent_clearance E g body opts \<le> fontMetrics_xHeight E opts)) \<and>
         (isStretchy g \<longrightarrow>
            htmlBuilder E (Accent g) opts =
              Inr (makeSpan E [''mord'', ''accent'']
                     [makeVList E
                        \<lparr>positionType = ''firstBaseline'',
                         vlist_children =
                           [VElem body None None,
                            VElem (svgSpan E g opts) (Some [''svg-align''])
                              (if accent_skew E g opts > 0
                               then Some [(''width'', CalcFullMinusEm (2 * accent_skew E g opts)),
                                          (''marginLeft'', Em (2 * accent_skew E g opts))]
                               else None)]\<rparr>
                        opts]
                     (Some opts),
                   []))"
proof (intro conjI impI)
  assume n: "\<not> isStretchy g"
  with assms show "htmlBuilder E (Accent g) opts =
      Inr (makeSpan E [''mord'', ''accent'']
             [makeVList E
                \<lparr>positionType = ''firstBaseline'',
                 vlist_children =
                   [VElem body None None,
                    VKern (- accent_clearance E g body opts),
                    VElem (accent_body_span E g (accent_skew E g opts) opts) None None]\<rparr>
                opts]
             (Some opts),
           [])"
    by (simp add: htmlBuilder_accent accentWrap_unfold accent_vlist_def)
  from n show c: "accent_clearance E g body opts =
      (if label g = cmd ''textcircled'' then height body
       else min (height body) (fontMetrics_xHeight E opts))"
    by (simp add: accent_clearance_def accentFull_def)
  assume "label g \<noteq> cmd ''textcircled''"
  with c show "accent_clearance E g body opts \<le> fontMetrics_xHeight E opts"
    by simp
next
  assume "isStretchy g"
  with assms show "htmlBuilder E (Accent g) opts =
      Inr (makeSpan E [''mord'', ''accent'']
             [makeVList E
                \<lparr>positionType = ''firstBaseline'',
                 vlist_children =
                   [VElem body None None,
                    VElem (svgSpan E g opts) (Some [''svg-align''])
                      (if accent_skew E g opts > 0
                       then Some [(''width'', CalcFullMinusEm (2 * accent_skew E g opts)),
                                  (''marginLeft'', Em (2 * accent_skew E g opts))]
                       else None)]\<rparr>
                opts]
             (Some opts),
           [])"
    by (simp add: htmlBuilder_accent accentWrap_unfold accent_vlist_def)
qed

lemma sample_bodies:
  "html_buildGroup sample_collab glyph_f (havingCrampedStyle sample_collab sample_opts) =
     Box [''mord''] [] (7/10) 0 1 (1/2) 0 (1/10) []"
  "html_buildGroup sample_collab glyph_plus (havingCrampedStyle sample_collab sample_opts) =
     Box [''mbin''] [] (7/10) 0 1 (1/2) 0 0 []"
  by (simp_all add: sample_fields sample_buildGroup_def sample_glyph_def glyph_f_def
      glyph_plus_def)

lemma sample_flags:
  "\<not> isStretchy hat_plus" "\<not> isStretchy hat_f" "\<not> isStretchy textcircled_f"
  "isStretchy widehat_f"
  "base hat_plus = glyph_plus" "base hat_f = glyph_f" "base textcircled_f = glyph_f"
  "base widehat_f = glyph_f"
  "label hat_plus = cmd ''hat''" "label hat_f = cmd ''hat''"
  "label textcircled_f = cmd ''textcircled''" "label widehat_f = cmd ''widehat''"
  by (simp_all add: hat_plus_def hat_f_def textcircled_f_def widehat_f_def)

text \<open>
  Scenario C: the builder stacks \<^verbatim>\<open>\textcircled\<close> over a base of height 0.7em with a kern
  of \<open>-0.7em\<close>, beyond the x-height 0.431em; it stacks \<^verbatim>\<open>\hat\<close> over the same base with
  a kern of \<open>-0.431em\<close>; and it stacks \<^verbatim>\<open>\widehat\<close> with no kern.
\<close>

theorem clearance_rule_witness:
  "\<not> isStretchy textcircled_f \<and> \<not> isStretchy hat_f \<and> isStretchy widehat_f \<and>
   htmlBuilder sample_collab (Accent textcircled_f) sample_opts =
     Inr (makeSpan sample_collab [''mord'', ''accent'']
            [makeVList sample_collab
               \<lparr>positionType = ''firstBaseline'',
                vlist_children =
                  [VElem (Box [''mord''] [] (7/10) 0 1 (1/2) 0 (1/10) []) None None,
                   VKern (- (7/10)),
                   VElem (accent_body_span sample_collab textcircled_f (1/10) sample_opts)
                     None None]\<rparr>
               sample_opts]
            (Some sample_opts),
          []) \<and>
   htmlBuilder sample_collab (Accent hat_f) sample_opts =
     Inr (makeSpan sample_collab [''mord'', ''accent'']
            [makeVList sample_collab
               \<lparr>positionType = ''firstBaseline'',
                vlist_children =
                  [VElem (Box [''mord''] [] (7/10) 0 1 (1/2) 0 (1/10) []) None None,
                   VKern (- (431/1000)),
                   VElem (accent_body_span sample_collab hat_f (1/10) sample_opts)
                     None None]\<rparr>
               sample_opts]
            (Some sample_opts),
          []) \<and>
   htmlBuilder sample_collab (Accent widehat_f) sample_opts =
     Inr (makeSpan sample_collab [''mord'', ''accent'']
            [makeVList sample_collab
               \<lparr>positionType = ''firstBaseline'',
                vlist_children =
                  [VElem (Box [''mord''] [] (7/10) 0 1 (1/2) 0 (1/10) []) None None,
                   VElem (svgSpan sample_collab widehat_f sample_opts) (Some [''svg-align''])
                     (Some [(''width'', CalcFullMinusEm (2/10)), (''marginLeft'', Em (2/10))])]\<rparr>
               sample_opts]
            (Some sample_opts),
          [])"
proof -
  have x: "fontMetrics_xHeight sample_collab sample_opts = 431/1000"
    by (simp add: sample_fields)
  have k: "accent_clearance sample_collab textcircled_f
             (Box [''mord''] [] (7/10) 0 1 (1/2) 0 (1/10) []) sample_opts = 7/10"
      "accent_clearance sample_collab hat_f
             (Box [''mord''] [] (7/10) 0 1 (1/2) 0 (1/10) []) sample_opts = 431/1000"
    by (simp_all add: accent_clearance_def accentFull_def sample_flags cmd_eq_iff x)
  from clearance_rule [of "Box [''mord''] [] (7/10) 0 1 (1/2) 0 (1/10) []" sample_collab
                          textcircled_f sample_opts]
       clearance_rule [of "Box [''mord''] [] (7/10) 0 1 (1/2) 0 (1/10) []" sample_collab
                          hat_f sample_opts]
       clearance_rule [of "Box [''mord''] [] (7/10) 0 1 (1/2) 0 (1/10) []" sample_collab
                          widehat_f sample_opts]
  show ?thesis
    by (simp add: sample_flags sample_bodies sample_skews x k cmd_eq_iff)
qed

text \<open>
  The claim as first stated gives every accent layout the clearance
  \<open>min (height, xHeight)\<close>. For \<^verbatim>\<open>\widehat\<close> over \<^verbatim>\<open>f\<close> that minimum is 0.431em, but
  the builder stacks the stretchy span directly after the base box: the list of layers
  has two elements and no kern.
\<close>

theorem stretchy_clearance_counterexample:
  "handler \<lparr>funcName = cmd ''widehat'', parser_mode = ''math''\<rparr> glyph_f = Accent widehat_f \<and>
   min (height (html_buildGroup sample_collab glyph_f
                  (havingCrampedStyle sample_collab sample_opts)))
       (fontMetrics_xHeight sample_collab sample_opts) = 431/1000 \<and>
   htmlBuilder sample_collab (Accent widehat_f) sample_opts =
     Inr (makeSpan sample_collab [''mord'', ''accent'']
            [makeVList sample_collab
               \<lparr>positionType = ''firstBaseline'',
                vlist_children =
                  [VElem (Box [''mord''] [] (7/10) 0 1 (1/2) 0 (1/10) []) None None,
                   VElem (svgSpan sample_collab widehat_f sample_opts) (Some [''svg-align''])
                     (Some [(''width'', CalcFullMinusEm (2/10)), (''marginLeft'', Em (2/10))])]\<rparr>
               sample_opts]
            (Some sample_opts),
          [])"
proof -
  have h: "handler \<lparr>funcName = cmd ''widehat'', parser_mode = ''math''\<rparr> glyph_f =
           Accent widehat_f"
    by (simp add: handler_def NON_STRETCHY_ACCENT_REGEX_test_def NON_STRETCHY_ACCENTS_def
        cmd_def sublist_code(3) widehat_f_def)
  have x: "fontMetrics_xHeight sample_collab sample_opts = 431/1000"
    by (simp add: sample_fields)
  show ?thesis
    by (simp add: h x htmlBuilder_accent accentWrap_unfold accent_vlist_def sample_flags
        sample_bodies sample_skews)
qed

subsection \<open>Horizontal offset of a non-stretchy accent\<close>

lemma accent_body_span_left:
  "map_of (style (accent_body_span E g s opts)) ''left'' =
     Some (Em (accent_left g s (snd (accent_glyph E g opts))))"
  by (simp add: accent_body_span_def Let_def split_def setter_fields update_conv')

lemma accent_body_span_classes:
  "classes (accent_body_span E g s opts) =
     (if accentFull g
      then classes (makeSpan E [''accent-body''] [fst (accent_glyph E g opts)] None)
             @ [''accent-full'']
      else classes (makeSpan E [''accent-body''] [fst (accent_glyph E g opts)] None))"
  by (simp add: accent_body_span_def Let_def split_def setter_fields)

lemma accent_glyph_width:
  "snd (accent_glyph E g opts) =
     (if label g = cmd ''vec'' then svgData_vec_width E
      else width (makeSymbol E (label g) ''Main-Regular'' (mode g) opts))"
  by (simp add: accent_glyph_def Let_def setter_fields)

text \<open>
  C4. For every non-stretchy accent, with \<open>skew\<close> the skew of C2 and \<open>width\<close> the width of
  the accent glyph (the width of the \<^verbatim>\<open>vec\<close> drawing for \<^verbatim>\<open>\vec\<close>, of the symbol
  otherwise): the \<^verbatim>\<open>left\<close> style of the accent body is \<open>skew - width / 2\<close>, which is
  \<open>- width / 2\<close> when the accent is not shifty, except for \<^verbatim>\<open>\textcircled\<close>, where it is
  \<open>skew\<close> and the class \<^verbatim>\<open>accent-full\<close> is appended to the classes of the body; no other
  label gets a class added. That body is the third layer of the stack the builder returns.
\<close>

theorem left_offset_rule:
  assumes "\<not> isStretchy g"
  shows "map_of (style (accent_body_span E g (accent_skew E g opts) opts)) ''left'' =
           Some (Em (if label g = cmd ''textcircled''
                     then accent_skew E g opts
                     else accent_skew E g opts - snd (accent_glyph E g opts) / 2)) \<and>
         (\<not> isShifty g \<and> label g \<noteq> cmd ''textcircled'' \<longrightarrow>
            map_of (style (accent_body_span E g (accent_skew E g opts) opts)) ''left'' =
              Some (Em (- snd (accent_glyph E g opts) / 2))) \<and>
         (label g = cmd ''textcircled'' \<longrightarrow>
            classes (accent_body_span E g (accent_skew E g opts) opts) =
              classes (makeSpan E [''accent-body''] [fst (accent_glyph E g opts)] None)
                @ [''accent-full'']) \<and>
         (label g \<noteq> cmd ''textcircled'' \<longrightarrow>
            classes (accent_body_span E g (accent_skew E g opts) opts) =
              classes (makeSpan E [''accent-body''] [fst (accent_glyph E g opts)] None)) \<and>
         snd (accent_glyph E g opts) =
           (if label g = cmd ''vec'' then svgData_vec_width E
            else width (makeSymbol E (label g) ''Main-Regular'' (mode g) opts)) \<and>
         vlist_children
           (accent_vlist E g (html_buildGroup E (base g) (havingCrampedStyle E opts))
              (accent_skew E g opts) opts) ! 2 =
           VElem (accent_body_span E g (accent_skew E g opts) opts) None None \<and>
         htmlBuilder E (Accent g) opts =
           Inr (makeSpan E [''mord'', ''accent'']
                  [makeVList E
                     \<lparr>positionType = ''firstBaseline'',
                      vlist_children =
                        [VElem (html_buildGroup E (base g) (havingCrampedStyle E opts))
                           None None,
                         VKern (- accent_clearance E g
                                    (html_buildGroup E (base g) (havingCrampedStyle E opts))
                                    opts),
                         VElem (accent_body_span E g (accent_skew E g opts) opts)
                           None None]\<rparr>
                     opts]
                  (Some opts),
                [])"
proof -
  have skew0: "\<not> isShifty g \<Longrightarrow> accent_skew E g opts = 0"
    by (simp add: accent_skew_def mustShift_def)
  from assms skew0 accent_glyph_width [of E g opts] show ?thesis
    by (simp add: accent_body_span_left accent_body_span_classes accent_left_def
        accentFull_def accent_vlist_def htmlBuilder_accent accentWrap_unfold)
qed

text \<open>
  \<^verbatim>\<open>\hat\<close> over \<^verbatim>\<open>f\<close> (skew 0.1em, glyph width 0.5em): left is \<open>-0.15em\<close>;
  \<^verbatim>\<open>\hat\<close> over \<^verbatim>\<open>+\<close> (skew 0): left is \<open>-0.25em\<close>. Scenario C,
  \<^verbatim>\<open>\textcircled\<close> over \<^verbatim>\<open>f\<close> (skew 0.1em): left is the skew, and the body is flagged.
  A non-shifty, non-stretchy \<^verbatim>\<open>\ddot\<close> over \<^verbatim>\<open>f\<close>: left is \<open>-0.25em\<close>. The box the
  builder returns for \<^verbatim>\<open>\hat\<close> over \<^verbatim>\<open>f\<close> carries that body as its third layer.
\<close>

theorem left_offset_rule_witness:
  "\<not> isStretchy hat_f \<and>
   map_of (style (accent_body_span sample_collab hat_f (1/10) sample_opts)) ''left'' =
     Some (Em (- (3/20))) \<and>
   \<not> isStretchy hat_plus \<and>
   map_of (style (accent_body_span sample_collab hat_plus 0 sample_opts)) ''left'' =
     Some (Em (- (1/4))) \<and>
   classes (accent_body_span sample_collab hat_plus 0 sample_opts) = [''accent-body''] \<and>
   \<not> isStretchy textcircled_f \<and>
   map_of (style (accent_body_span sample_collab textcircled_f (1/10) sample_opts)) ''left'' =
     Some (Em (1/10)) \<and>
   classes (accent_body_span sample_collab textcircled_f (1/10) sample_opts) =
     [''accent-body'', ''accent-full''] \<and>
   map_of (style (accent_body_span sample_collab
                    (AccentNode (cmd ''ddot'') False False glyph_f ''math'') 0 sample_opts))
     ''left'' = Some (Em (- (1/4))) \<and>
   htmlBuilder sample_collab (Accent hat_f) sample_opts =
     Inr (makeSpan sample_collab [''mord'', ''accent'']
            [makeVList sample_collab
               \<lparr>positionType = ''firstBaseline'',
                vlist_children =
                  [VElem (Box [''mord''] [] (7/10) 0 1 (1/2) 0 (1/10) []) None None,
                   VKern (- (431/1000)),
                   VElem (accent_body_span sample_collab hat_f (1/10) sample_opts)
                     None None]\<rparr>
               sample_opts]
            (Some sample_opts),
          [])"
proof -
  have n: "\<not> isStretchy (AccentNode (cmd ''ddot'') False False glyph_f ''math'')"
    by simp
  have l: "label hat_plus \<noteq> cmd ''textcircled''" "label hat_f \<noteq> cmd ''textcircled''"
      "label hat_plus \<noteq> cmd ''vec''" "label hat_f \<noteq> cmd ''vec''"
      "label textcircled_f \<noteq> cmd ''vec''"
    by (simp_all add: sample_flags cmd_eq_iff)
  have w: "width (makeSymbol sample_collab v f m sample_opts) = 1/2" for v f m
    by (simp add: sample_collab_def)
  have c: "classes (makeSpan sample_collab [''accent-body''] bs None) = [''accent-body'']" for bs
    by (simp add: sample_fields sample_makeSpan_def)
  have d: "accent_skew sample_collab (AccentNode (cmd ''ddot'') False False glyph_f ''math'')
             sample_opts = 0"
    by (simp add: accent_skew_def mustShift_def)
  have k: "accent_clearance sample_collab hat_f (Box [''mord''] [] (7/10) 0 1 (1/2) 0 (1/10) [])
             sample_opts = 431/1000"
    by (simp add: accent_clearance_def accentFull_def sample_flags cmd_eq_iff sample_fields)
  from left_offset_rule [OF sample_flags(2), of sample_collab sample_opts]
       left_offset_rule [OF sample_flags(1), of sample_collab sample_opts]
       left_offset_rule [OF sample_flags(3), of sample_collab sample_opts]
       left_offset_rule [OF n, of sample_collab sample_opts]
  show ?thesis
    by (simp add: sample_flags sample_bodies sample_skews d l w c k cmd_eq_iff)
qed

subsection \<open>Scenario B: a wide hat over a skewed glyph\<close>

text \<open>
  C5 (as amended). For \<^verbatim>\<open>\widehat\<close> over a character box whose innermost element has
  the skew 0.1em: the handler builds a stretchy, shifty node; the skew is 0.1; the builder
  takes the stretchy branch and returns the stack of the base box and the stretchy span,
  and the wrapper of the span gets the class \<^verbatim>\<open>svg-align\<close>, the width
  \<^verbatim>\<open>calc(100% - 0.2em)\<close> and the left margin \<^verbatim>\<open>0.2em\<close>: both are twice the skew.
\<close>

theorem widehat_scenario:
  assumes "isCharacterBox E b"
    and "skew (html_buildGroup E (getBaseElem E b) (havingCrampedStyle E opts)) = 1/10"
  shows "handler \<lparr>funcName = cmd ''widehat'', parser_mode = m\<rparr> b =
           Accent (AccentNode (cmd ''widehat'') True True b m) \<and>
         accent_skew E (AccentNode (cmd ''widehat'') True True b m) opts = 1/10 \<and>
         accent_vlist E (AccentNode (cmd ''widehat'') True True b m) body
             (accent_skew E (AccentNode (cmd ''widehat'') True True b m) opts) opts =
           \<lparr>positionType = ''firstBaseline'',
            vlist_children =
              [VElem body None None,
               VElem (svgSpan E (AccentNode (cmd ''widehat'') True True b m) opts)
                 (Some [''svg-align''])
                 (Some [(''width'', CalcFullMinusEm (2/10)), (''marginLeft'', Em (2/10))])]\<rparr> \<and>
         htmlBuilder E (handler \<lparr>funcName = cmd ''widehat'', parser_mode = m\<rparr> b) opts =
           Inr (makeSpan E [''mord'', ''accent'']
                  [makeVList E
                     \<lparr>positionType = ''firstBaseline'',
                      vlist_children =
                        [VElem (html_buildGroup E b (havingCrampedStyle E opts)) None None,
                         VElem (svgSpan E (AccentNode (cmd ''widehat'') True True b m) opts)
                           (Some [''svg-align''])
                           (Some [(''width'', CalcFullMinusEm (2/10)),
                                  (''marginLeft'', Em (2/10))])]\<rparr>
                     opts]
                  (Some opts),
                [])"
proof -
  have h: "handler \<lparr>funcName = cmd ''widehat'', parser_mode = m\<rparr> b =
           Accent (AccentNode (cmd ''widehat'') True True b m)"
    by (simp add: handler_def NON_STRETCHY_ACCENT_REGEX_test_def NON_STRETCHY_ACCENTS_def
        cmd_def sublist_code(3))
  from assms have s: "accent_skew E (AccentNode (cmd ''widehat'') True True b m) opts = 1/10"
    by (simp add: accent_skew_def mustShift_def)
  show ?thesis
    by (simp add: h s accent_vlist_def htmlBuilder_accent accentWrap_unfold)
qed

text \<open>The scenario on the sample collaborators, where the glyph \<^verbatim>\<open>f\<close> has the skew 0.1em.\<close>

theorem widehat_scenario_witness:
  "sample_isCharacterBox glyph_f \<and>
   skew (sample_buildGroup (sample_getBaseElem glyph_f) \<lparr>cramped = True\<rparr>) = 1/10 \<and>
   handler \<lparr>funcName = cmd ''widehat'', parser_mode = ''math''\<rparr> glyph_f = Accent widehat_f \<and>
   accent_skew sample_collab widehat_f sample_opts = 1/10 \<and>
   htmlBuilder sample_collab
       (handler \<lparr>funcName = cmd ''widehat'', parser_mode = ''math''\<rparr> glyph_f) sample_opts =
     Inr (makeSpan sample_collab [''mord'', ''accent'']
            [makeVList sample_collab
               \<lparr>positionType = ''firstBaseline'',
                vlist_children =
                  [VElem (Box [''mord''] [] (7/10) 0 1 (1/2) 0 (1/10) []) None None,
                   VElem (svgSpan sample_collab widehat_f sample_opts) (Some [''svg-align''])
                     (Some [(''width'', CalcFullMinusEm (2/10)), (''marginLeft'', Em (2/10))])]\<rparr>
               sample_opts]
            (Some sample_opts),
          [])"
proof -
  have a: "isCharacterBox sample_collab glyph_f"
    by (simp add: sample_fields sample_isCharacterBox_def glyph_f_def)
  have b: "skew (html_buildGroup sample_collab (getBaseElem sample_collab glyph_f)
                   (havingCrampedStyle sample_collab sample_opts)) = 1/10"
    by (simp add: sample_fields sample_buildGroup_def sample_glyph_def glyph_f_def)
  have c: "sample_isCharacterBox glyph_f"
      "skew (sample_buildGroup (sample_getBaseElem glyph_f) \<lparr>cramped = True\<rparr>) = 1/10"
    by (simp_all add: sample_isCharacterBox_def sample_buildGroup_def sample_glyph_def
        glyph_f_def)
  have f: "AccentNode (cmd ''widehat'') True True glyph_f ''math'' = widehat_f"
    by (simp add: widehat_f_def)
  note scenario = widehat_scenario [OF a b, of "''math''"
                                       "Box [''mord''] [] (7/10) 0 1 (1/2) 0 (1/10) []"]
  note on_sample = scenario [unfolded f sample_bodies]
  from on_sample have h:
    "handler \<lparr>funcName = cmd ''widehat'', parser_mode = ''math''\<rparr> glyph_f = Accent widehat_f"
    by (rule conjunct1)
  from on_sample [unfolded h] c show ?thesis
    by (simp add: h)
qed

text \<open>
  The claim as first stated gives the left margin as 0.1em. On the sample collaborators the
  skew is 0.1 and the margin in the box the builder returns is \<^verbatim>\<open>0.2em\<close>, which is
  not \<^verbatim>\<open>0.1em\<close>.
\<close>

theorem widehat_margin_counterexample:
  "handler \<lparr>funcName = cmd ''widehat'', parser_mode = ''math''\<rparr> glyph_f = Accent widehat_f \<and>
   sample_isCharacterBox glyph_f \<and>
   skew (sample_buildGroup (sample_getBaseElem glyph_f) \<lparr>cramped = True\<rparr>) = 1/10 \<and>
   accent_skew sample_collab widehat_f sample_opts = 1/10 \<and>
   htmlBuilder sample_collab (Accent widehat_f) sample_opts =
     Inr (makeSpan sample_collab [''mord'', ''accent'']
            [makeVList sample_collab
               \<lparr>positionType = ''firstBaseline'',
                vlist_children =
                  [VElem (Box [''mord''] [] (7/10) 0 1 (1/2) 0 (1/10) []) None None,
                   VElem (svgSpan sample_collab widehat_f sample_opts) (Some [''svg-align''])
                     (Some [(''width'', CalcFullMinusEm (2/10)), (''marginLeft'', Em (2/10))])]\<rparr>
               sample_opts]
            (Some sample_opts),
          []) \<and>
   Em (2/10) \<noteq> Em (1/10)"
proof -
  have h: "handler \<lparr>funcName = cmd ''widehat'', parser_mode = ''math''\<rparr> glyph_f =
           Accent widehat_f"
    by (simp add: handler_def NON_STRETCHY_ACCENT_REGEX_test_def NON_STRETCHY_ACCENTS_def
        cmd_def sublist_code(3) widehat_f_def)
  have c: "sample_isCharacterBox glyph_f"
      "skew (sample_buildGroup (sample_getBaseElem glyph_f) \<lparr>cramped = True\<rparr>) = 1/10"
    by (simp_all add: sample_isCharacterBox_def sample_buildGroup_def sample_glyph_def
        glyph_f_def)
  show ?thesis
    by (simp add: h c htmlBuilder_accent accentWrap_unfold accent_vlist_def sample_flags
        sample_bodies sample_skews)
qed

subsection \<open>A wrapper with superscripts and subscripts\<close>

text \<open>
  C6. When the node is a \<^verbatim>\<open>supsub\<close> wrapper whose base is an accent, the builder succeeds
  and the box it returns has, in child slot 0, the box the builder makes for the bare
  accent; its height is the maximum of the height of that box and of the height of the box
  the layout of the rewritten wrapper produced; and its first class is \<^verbatim>\<open>mord\<close>,
  whatever the layout had put there.
\<close>

theorem supsub_patch:
  assumes "sbase ss = Some (Accent g)"
  shows "\<exists>r. htmlBuilder E (SupSub ss) opts = Inr (r, [BaseAssigned ss (base g)]) \<and>
             htmlBuilder E (Accent g) opts = Inr (accentWrap E g opts, []) \<and>
             children r \<noteq> [] \<and> children r ! 0 = accentWrap E g opts \<and>
             height r =
               max (height (accentWrap E g opts))
                   (height (html_buildGroup E
                      (SupSub (SupSubNode (Some (base g)) (sup ss) (sub ss) (smode ss))) opts)) \<and>
             classes r \<noteq> [] \<and> classes r ! 0 = ''mord''"
  by (simp add: htmlBuilder_supsub [OF assms] htmlBuilder_accent setter_fields assign0_Cons)

lemma sample_accentWrap_hat_plus:
  "accentWrap sample_collab hat_plus sample_opts =
     Box [''mord'', ''accent'']
       [Box [''vlist-t'']
          [Box [''mbin''] [] (7/10) 0 1 (1/2) 0 0 [],
           Box [''accent-body''] [Box [] [] (7/10) 0 1 (1/2) 0 0 []] (7/10) 0 1 0 0 0
             [(''left'', Em (- (1/4)))]]
          (969/1000) 0 1 0 0 0 []]
       (969/1000) 0 1 0 0 0 []"
  by (simp add: accentWrap_def accent_skew_def mustShift_def sample_isCharacterBox_def
      accent_vlist_def accent_clearance_def
      accent_body_span_def accent_glyph_def accent_left_def accentFull_def cmd_eq_iff
      hat_plus_def glyph_plus_def sample_opts_def sample_collab_def sample_makeSpan_def
      sample_makeVList_def sample_buildGroup_def sample_glyph_def
      set_italic_def set_style_def)

lemma sample_supsub_layout:
  "html_buildGroup sample_collab
     (SupSub (SupSubNode (Some glyph_plus) (Some glyph_2) None ''math'')) sample_opts =
   Box [''mbin'']
     [Box [''mbin''] [] (7/10) 0 1 (1/2) 0 0 [], Box [''msupsub''] [] (9/10) 0 1 (1/3) 0 0 []]
     (9/10) 0 1 (5/6) 0 0 []"
  by (simp add: sample_fields sample_buildGroup_def sample_glyph_def glyph_plus_def)

lemma hat_plus_sup_fields:
  "sbase hat_plus_sup = Some (Accent hat_plus)" "sup hat_plus_sup = Some glyph_2"
  "sub hat_plus_sup = None" "smode hat_plus_sup = ''math''"
  by (simp_all add: hat_plus_sup_def)

text \<open>
  \<^verbatim>\<open>\hat{+}^2\<close>: the layout of \<^verbatim>\<open>+^2\<close> has the class \<^verbatim>\<open>mbin\<close> and the height 0.9em; the
  accent box has the height 0.969em. The result has the accent box in slot 0, the height
  0.969em and the class \<^verbatim>\<open>mord\<close>.
\<close>

theorem supsub_patch_witness:
  "sbase hat_plus_sup = Some (Accent hat_plus) \<and>
   (\<exists>r. htmlBuilder sample_collab (SupSub hat_plus_sup) sample_opts =
           Inr (r, [BaseAssigned hat_plus_sup glyph_plus]) \<and>
         children r ! 0 = accentWrap sample_collab hat_plus sample_opts \<and>
         height r = 969/1000 \<and> classes r ! 0 = ''mord'')"
proof -
  have h: "height (accentWrap sample_collab hat_plus sample_opts) = 969/1000"
    by (simp add: sample_accentWrap_hat_plus)
  from supsub_patch [OF hat_plus_sup_fields(1), of sample_collab sample_opts]
       hat_plus_sup_fields(1)
  show ?thesis
    unfolding sample_flags hat_plus_sup_fields(2-4) sample_supsub_layout h by auto
qed

text \<open>
  C10. In the same case, the box returned is the box the layout of the rewritten wrapper
  produced with three fields written: child slot 0, the height and the first class. Its
  depth, its other children, its other classes and every other field are those of the
  layout's box.
\<close>

theorem supsub_frame:
  assumes "sbase ss = Some (Accent g)"
    and "sg = html_buildGroup E
                (SupSub (SupSubNode (Some (base g)) (sup ss) (sub ss) (smode ss))) opts"
  shows "\<exists>r n. htmlBuilder E (SupSub ss) opts = Inr (r, n) \<and>
           r = Box (''mord'' # tl (classes sg)) (accentWrap E g opts # tl (children sg))
                   (max (height (accentWrap E g opts)) (height sg))
                   (depth sg) (maxFontSize sg) (width sg) (italic sg) (skew sg) (style sg) \<and>
           depth r = depth sg \<and>
           tl (children r) = tl (children sg) \<and>
           tl (classes r) = tl (classes sg) \<and>
           maxFontSize r = maxFontSize sg \<and> width r = width sg \<and> italic r = italic sg \<and>
           skew r = skew sg \<and> style r = style sg"
  by (cases sg)
     (simp add: htmlBuilder_supsub [OF assms(1)] assms(2) [symmetric] assign0_Cons
        set_classes_def set_height_def set_children_def)

text \<open>
  \<^verbatim>\<open>\hat{+}^2\<close> again: the script box stays in slot 1, and the depth and the width are
  those of the layout of \<^verbatim>\<open>+^2\<close>.
\<close>

theorem supsub_frame_witness:
  "sbase hat_plus_sup = Some (Accent hat_plus) \<and>
   (\<exists>r n. htmlBuilder sample_collab (SupSub hat_plus_sup) sample_opts = Inr (r, n) \<and>
           r = Box [''mord'']
                 [accentWrap sample_collab hat_plus sample_opts,
                  Box [''msupsub''] [] (9/10) 0 1 (1/3) 0 0 []]
                 (969/1000) 0 1 (5/6) 0 0 [])"
proof -
  have h: "height (accentWrap sample_collab hat_plus sample_opts) = 969/1000"
    by (simp add: sample_accentWrap_hat_plus)
  from supsub_frame [OF hat_plus_sup_fields(1) refl, of sample_collab sample_opts]
       hat_plus_sup_fields(1)
  show ?thesis
    unfolding sample_flags hat_plus_sup_fields(2-4) sample_supsub_layout h by auto
qed

subsection \<open>What the builder writes to its argument\<close>

text \<open>
  C7 (as amended). The builder is not a function from an immutable tree: its own code
  writes to the node it is given. Given a bare accent node it makes no write. Given a
  \<^verbatim>\<open>supsub\<close> wrapper whose base is an accent, it makes exactly one write, and makes it
  before the wrapper is laid out: it assigns the accent's own base to the wrapper's
  \<^verbatim>\<open>base\<close> field. The wrapper after that write has the accent's base as its base and its
  \<^verbatim>\<open>sup\<close>, \<^verbatim>\<open>sub\<close> and mode as before; it is not the wrapper passed in; it is the node
  the layout is run on; and the builder never assigns the accent back. What the layout,
  which can come back to this builder on the rewritten wrapper, writes in its turn is not
  part of the statement.
\<close>

theorem htmlBuilder_writes:
  "htmlBuilder E (Accent g) opts = Inr (accentWrap E g opts, []) \<and>
   (sbase ss = Some (Accent g) \<longrightarrow>
      (\<exists>r. htmlBuilder E (SupSub ss) opts = Inr (r, [BaseAssigned ss (base g)]) \<and>
            tl (children r) =
              tl (children (html_buildGroup E
                              (SupSub (after_write (BaseAssigned ss (base g)))) opts)) \<and>
            depth r =
              depth (html_buildGroup E
                       (SupSub (after_write (BaseAssigned ss (base g)))) opts)) \<and>
      after_write (BaseAssigned ss (base g)) =
        SupSubNode (Some (base g)) (sup ss) (sub ss) (smode ss) \<and>
      after_write (BaseAssigned ss (base g)) \<noteq> ss)"
proof (intro conjI impI)
  show "htmlBuilder E (Accent g) opts = Inr (accentWrap E g opts, [])"
    by (rule htmlBuilder_accent)
next
  assume a: "sbase ss = Some (Accent g)"
  then show "\<exists>r. htmlBuilder E (SupSub ss) opts = Inr (r, [BaseAssigned ss (base g)]) \<and>
            tl (children r) =
              tl (children (html_buildGroup E
                              (SupSub (after_write (BaseAssigned ss (base g)))) opts)) \<and>
            depth r =
              depth (html_buildGroup E
                       (SupSub (after_write (BaseAssigned ss (base g)))) opts)"
    by (simp add: htmlBuilder_supsub setter_fields assign0_Cons)
  show "after_write (BaseAssigned ss (base g)) =
        SupSubNode (Some (base g)) (sup ss) (sub ss) (smode ss)"
    by simp
  show "after_write (BaseAssigned ss (base g)) \<noteq> ss"
  proof
    assume "after_write (BaseAssigned ss (base g)) = ss"
    then have "sbase (after_write (BaseAssigned ss (base g))) = sbase ss"
      by simp
    with a base_neq_Accent [of g] show False by simp
  qed
qed

text \<open>
  \<^verbatim>\<open>\hat{+}\<close> is built without a write; building \<^verbatim>\<open>\hat{+}^2\<close> assigns \<^verbatim>\<open>+\<close> to the
  base of the wrapper, which is \<^verbatim>\<open>+^2\<close> from then on.
\<close>

theorem htmlBuilder_writes_witness:
  "sbase hat_plus_sup = Some (Accent hat_plus) \<and>
   htmlBuilder sample_collab (Accent hat_plus) sample_opts =
     Inr (accentWrap sample_collab hat_plus sample_opts, []) \<and>
   (\<exists>r. htmlBuilder sample_collab (SupSub hat_plus_sup) sample_opts =
           Inr (r, [BaseAssigned hat_plus_sup glyph_plus]) \<and>
         tl (children r) = [Box [''msupsub''] [] (9/10) 0 1 (1/3) 0 0 []]) \<and>
   after_write (BaseAssigned hat_plus_sup glyph_plus) =
     SupSubNode (Some glyph_plus) (Some glyph_2) None ''math'' \<and>
   SupSubNode (Some glyph_plus) (Some glyph_2) None ''math'' \<noteq> hat_plus_sup"
proof -
  have w: "after_write (BaseAssigned hat_plus_sup glyph_plus) =
           SupSubNode (Some glyph_plus) (Some glyph_2) None ''math''"
    by (simp add: hat_plus_sup_fields)
  from htmlBuilder_writes [of sample_collab hat_plus sample_opts hat_plus_sup]
       hat_plus_sup_fields(1)
  show ?thesis
    unfolding sample_flags w sample_supsub_layout by auto
qed

text \<open>
  The claim as first stated says that the input node is unchanged when the builder
  returns. Building \<^verbatim>\<open>\hat{+}^2\<close> makes a write, and the wrapper it leaves is \<^verbatim>\<open>+^2\<close>:
  the accent is gone from the wrapper, and the builder makes no second write that would
  put it back.
\<close>

theorem htmlBuilder_pure_counterexample:
  "map_sum id snd
     (htmlBuilder sample_collab
        (SupSub (SupSubNode (Some (Accent (AccentNode (cmd ''hat'') False True glyph_plus ''math'')))
                   (Some glyph_2) None ''math''))
        sample_opts) =
     Inr [BaseAssigned
            (SupSubNode (Some (Accent (AccentNode (cmd ''hat'') False True glyph_plus ''math'')))
               (Some glyph_2) None ''math'')
            glyph_plus] \<and>
   after_write
     (BaseAssigned
        (SupSubNode (Some (Accent (AccentNode (cmd ''hat'') False True glyph_plus ''math'')))
           (Some glyph_2) None ''math'')
        glyph_plus) =
     SupSubNode (Some glyph_plus) (Some glyph_2) None ''math'' \<and>
   SupSubNode (Some glyph_plus) (Some glyph_2) None ''math'' \<noteq>
   SupSubNode (Some (Accent (AccentNode (cmd ''hat'') False True glyph_plus ''math'')))
     (Some glyph_2) None ''math''"
  by (simp add: htmlBuilder_def checkNodeType_supsub_def assertNodeType_accent_def Let_def
      glyph_plus_def)

subsection \<open>Malformed nodes\<close>

text \<open>
  C9. Given a \<^verbatim>\<open>supsub\<close> wrapper whose base is missing or is not an accent node, or given
  a node that is neither a \<^verbatim>\<open>supsub\<close> nor an accent, the builder raises the error of the
  failed type assertion and returns no box. (The result is a function of the node: the same
  node fails the same way every time.)
\<close>

theorem htmlBuilder_malformed:
  "((\<forall>g. sbase ss \<noteq> Some (Accent g)) \<longrightarrow>
      htmlBuilder E (SupSub ss) opts = Inl (NodeTypeError ''accent'')) \<and>
   htmlBuilder E (Other t x a m) opts = Inl (NodeTypeError ''accent'')"
  by (auto simp add: htmlBuilder_def checkNodeType_supsub_def assertNodeType_accent_def
      split: option.splits node.splits)

text \<open>\<^verbatim>\<open>f^2\<close>, a superscript without a base, and the bare glyph \<^verbatim>\<open>f\<close>.\<close>

theorem htmlBuilder_malformed_witness:
  "htmlBuilder sample_collab (SupSub (SupSubNode (Some glyph_f) (Some glyph_2) None ''math''))
     sample_opts = Inl (NodeTypeError ''accent'') \<and>
   htmlBuilder sample_collab (SupSub (SupSubNode None (Some glyph_2) None ''math''))
     sample_opts = Inl (NodeTypeError ''accent'') \<and>
   htmlBuilder sample_collab glyph_f sample_opts = Inl (NodeTypeError ''accent'')"
proof -
  have a: "\<forall>g. sbase (SupSubNode (Some glyph_f) (Some glyph_2) None ''math'') \<noteq> Some (Accent g)"
    by (simp add: glyph_f_def)
  have b: "\<forall>g. sbase (SupSubNode None (Some glyph_2) None ''math'') \<noteq> Some (Accent g)"
    by simp
  from htmlBuilder_malformed
         [of "SupSubNode (Some glyph_f) (Some glyph_2) None ''math''" sample_collab sample_opts
             "''mathord''" "''f''" "[]" "''math''"]
       htmlBuilder_malformed
         [of "SupSubNode None (Some glyph_2) None ''math''" sample_collab sample_opts]
       a b
  show ?thesis
    by (simp add: glyph_f_def)
qed

subsection \<open>The MathML builder\<close>




end
